theory Spec2Isabelle
  imports Complex_Main "HOL-Library.Log_Nat"
begin

section \<open>Values, messages and exceptions\<close>

text \<open>
  A decoded JSON document as Python holds it: \<^verbatim>\<open>None\<close>, \<^verbatim>\<open>bool\<close>, \<^verbatim>\<open>int\<close>,
  \<^verbatim>\<open>float\<close> (a finite double is a rational number), \<^verbatim>\<open>str\<close>, \<^verbatim>\<open>list\<close> and
  \<^verbatim>\<open>dict\<close>. A dict is the list of its items in insertion order; a key is looked up
  with \<open>map_of\<close>.
\<close>

datatype json =
    JNull
  | JBool bool
  | JInt int
  | JFloat rat
  | JStr string
  | JArr "json list"
  | JObj "(string \<times> json) list"

type_synonym pydict = "(string \<times> json) list"

datatype path_elem = Key string | Index nat

text \<open>
  An f-string is kept as the sequence of its literal segments and replacement fields, each
  field with the value it formats: \<^verbatim>\<open>{s}\<close> of a \<^verbatim>\<open>str\<close>, \<^verbatim>\<open>'{s}'\<close> (a \<^verbatim>\<open>str\<close> field
  that the template writes between apostrophes), \<^verbatim>\<open>{n}\<close> of an \<^verbatim>\<open>int\<close>,
  \<^verbatim>\<open>{x:.2f}\<close> of a \<^verbatim>\<open>float\<close>, \<^verbatim>\<open>{v}\<close> of any JSON value, \<^verbatim>\<open>{v!r}\<close>, the list
  of a dict's keys, and a path.
\<close>

datatype part =
    Lit string
  | Fmt_str string
  | Fmt_quoted string
  | Fmt_int int
  | Fmt_2f rat
  | Fmt_val json
  | Fmt_repr json
  | Fmt_keys "string list"
  | Fmt_path "path_elem list"

type_synonym msg = "part list"

text \<open>
  The exceptions that the code raises or lets through: \<^verbatim>\<open>AssertionError\<close> of an
  \<^verbatim>\<open>assert\<close>, \<^verbatim>\<open>KeyError\<close> of a subscript, the two exceptions of the schema library
  (\<^verbatim>\<open>ValidationError\<close> with its message and path, \<^verbatim>\<open>SchemaError\<close>), the
  \<^verbatim>\<open>TypeError\<close> of an operation on a value of the wrong type, and the transport failures
  of the HTTP library (timeout, connection error).
\<close>

datatype exn =
    AssertionError msg
  | KeyError string
  | ValidationError msg "path_elem list"
  | SchemaError
  | TypeError
  | Timeout
  | ConnectionError

section \<open>Python semantics used by the validators\<close>

subsection \<open>Equality and membership\<close>

text \<open>
  Python's \<^verbatim>\<open>==\<close> on decoded JSON: numbers (and booleans, which are integers) compare
  by value across \<^verbatim>\<open>bool\<close>, \<^verbatim>\<open>int\<close> and \<^verbatim>\<open>float\<close>; lists compare element by
  element; dicts compare as mappings, whatever the order of their items; values of different
  kinds are unequal.
\<close>

fun num_of :: "json \<Rightarrow> rat option" where
  "num_of (JBool b) = Some (if b then 1 else 0)"
| "num_of (JInt n) = Some (of_int n)"
| "num_of (JFloat x) = Some x"
| "num_of _ = None"

lemma size_json_elem: "z \<in> set xs \<Longrightarrow> size z < size (JArr xs)"
  by (induction xs) auto

lemma size_json_item: "(k, v) \<in> set kvs \<Longrightarrow> size v < size (JObj kvs)"
  by (induction kvs) auto

definition num_eq :: "json \<Rightarrow> json \<Rightarrow> bool" where
  "num_eq a b = (case num_of b of None \<Rightarrow> False | Some y \<Rightarrow> num_of a = Some y)"

function (sequential) py_eq :: "json \<Rightarrow> json \<Rightarrow> bool" where
  "py_eq JNull b = (b = JNull)"
| "py_eq (JStr s) b = (b = JStr s)"
| "py_eq (JArr xs) (JArr ys) = list_all2 py_eq xs ys"
| "py_eq (JArr xs) b = False"
| "py_eq (JObj kvs) (JObj kvs') =
     (set (map fst kvs) = set (map fst kvs') \<and>
      list_all (\<lambda>(k, v). case map_of kvs' k of None \<Rightarrow> False | Some v' \<Rightarrow> py_eq v v') kvs)"
| "py_eq (JObj kvs) b = False"
| "py_eq a b = num_eq a b"
  by pat_completeness auto
termination
proof (relation "measure (\<lambda>(a, b). size a)")
  show "wf (measure (\<lambda>(a, b). size a))" by simp
next
  fix xs ys :: "json list" and z zs
  assume "z \<in> set xs"
  then show "((z, zs), JArr xs, JArr ys) \<in> measure (\<lambda>(a, b). size a)"
    using size_json_elem [of z xs] by simp
next
  fix kvs kvs' :: pydict and kv :: "string \<times> json" and k v v'
  assume "kv \<in> set kvs" "(k, v) = kv"
  then show "((v, v'), JObj kvs, JObj kvs') \<in> measure (\<lambda>(a, b). size a)"
    using size_json_item [of k v kvs] by simp
qed

text \<open>\<^verbatim>\<open>x in xs\<close> for a list \<^verbatim>\<open>xs\<close>: some element equals \<^verbatim>\<open>x\<close>.\<close>

definition py_in :: "json \<Rightarrow> json list \<Rightarrow> bool" where
  "py_in x xs = list_ex (py_eq x) xs"

text \<open>\<^verbatim>\<open>key in d\<close> and \<^verbatim>\<open>d[key]\<close> for a dict \<^verbatim>\<open>d\<close>; the subscript raises \<^verbatim>\<open>KeyError\<close>.\<close>

definition dict_contains :: "pydict \<Rightarrow> string \<Rightarrow> bool" where
  "dict_contains d k = (map_of d k \<noteq> None)"

definition dict_getitem :: "pydict \<Rightarrow> string \<Rightarrow> exn + json" where
  "dict_getitem d k = (case map_of d k of None \<Rightarrow> Inl (KeyError k) | Some v \<Rightarrow> Inr v)"

definition dict_keys :: "pydict \<Rightarrow> string list" where
  "dict_keys d = remdups (map fst d)"

text \<open>
  \<^verbatim>\<open>needle in haystack\<close> for two strings: the needle occurs as a contiguous run.
\<close>

fun starts_with :: "string \<Rightarrow> string \<Rightarrow> bool" where
  "starts_with [] ys = True"
| "starts_with (x # xs) [] = False"
| "starts_with (x # xs) (y # ys) = (x = y \<and> starts_with xs ys)"

fun str_contains :: "string \<Rightarrow> string \<Rightarrow> bool" where
  "str_contains xs [] = (xs = [])"
| "str_contains xs (y # ys) = (starts_with xs (y # ys) \<or> str_contains xs ys)"

subsection \<open>Floating point\<close>

text \<open>
  A Python \<^verbatim>\<open>float\<close> is an IEEE 754 double. A finite double is a rational number, and
  an operation returns the exact result rounded to the nearest double, ties to the even
  significand: for \<open>x \<noteq> 0\<close> the last place has the weight \<open>2 powi e\<close> with
  \<open>e = \<lfloor>log\<^sub>2 \<bar>x\<bar>\<rfloor> - 52\<close>, not below \<open>- 1074\<close> (the subnormal range). Overflow to
  infinity is left out: the values here stay below \<open>10\<^sup>1\<^sup>7\<close>, since a \<^verbatim>\<open>timedelta\<close> holds
  less than \<open>10\<^sup>9\<close> days.
\<close>

definition round_half_even :: "rat \<Rightarrow> int" where
  "round_half_even x =
     (let f = \<lfloor>x\<rfloor>; d = x - of_int f in
      if d < 1 / 2 then f else if 1 / 2 < d then f + 1 else if even f then f else f + 1)"

definition floor_log2 :: "rat \<Rightarrow> int" where
  "floor_log2 a =
     (let (p, q) = quotient_of a; k = bitlen p - bitlen q in
      if 2 powi k \<le> a then k else k - 1)"

definition round_double :: "rat \<Rightarrow> rat" where
  "round_double x =
     (if x = 0 then 0
      else let a = \<bar>x\<bar>;
               e = max (- 1074) (floor_log2 a - 52);
               m = round_half_even (a / 2 powi e)
           in sgn x * of_int m * 2 powi e)"

text \<open>\<^verbatim>\<open>a / b\<close> of two \<^verbatim>\<open>int\<close>s (true division, correctly rounded) and \<^verbatim>\<open>x * n\<close> of
  a \<^verbatim>\<open>float\<close> and an \<^verbatim>\<open>int\<close>.\<close>

definition int_truediv :: "int \<Rightarrow> int \<Rightarrow> rat" where
  "int_truediv a b = round_double (of_int a / of_int b)"

definition float_mul_int :: "rat \<Rightarrow> int \<Rightarrow> rat" where
  "float_mul_int x n = round_double (x * round_double (of_int n))"

text \<open>
  \<^verbatim>\<open>datetime.timedelta\<close>: days, seconds and microseconds, and
  \<^verbatim>\<open>total_seconds() = ((days * 86400 + seconds) * 10**6 + microseconds) / 10**6\<close>.
\<close>

record timedelta =
  days :: int
  seconds :: int
  microseconds :: int

definition total_seconds :: "timedelta \<Rightarrow> rat" where
  "total_seconds td =
     int_truediv ((days td * 86400 + seconds td) * 10 ^ 6 + microseconds td) (10 ^ 6)"

text \<open>
  The exact length of a \<^verbatim>\<open>timedelta\<close> in microseconds. The code never computes it; it is
  here to say how far the \<^verbatim>\<open>float\<close> of \<^verbatim>\<open>total_seconds()\<close> is from it.
\<close>

definition exact_us :: "timedelta \<Rightarrow> int" where
  "exact_us td = (days td * 86400 + seconds td) * 10 ^ 6 + microseconds td"

section \<open>The response record\<close>

text \<open>
  What the validators read of a \<^verbatim>\<open>requests.Response\<close>: the status code, the headers,
  the body text and the elapsed time. The headers are a case-insensitive dict: it keeps a
  value under the lower-cased name, and \<^verbatim>\<open>get(key, default)\<close> lower-cases the key.
\<close>

definition lower_char :: "char \<Rightarrow> char" where
  "lower_char c =
     (if 65 \<le> (of_char c :: nat) \<and> (of_char c :: nat) \<le> 90 then char_of (of_char c + 32 :: nat)
      else c)"

definition lower :: "string \<Rightarrow> string" where
  "lower s = map lower_char s"

type_synonym ci_dict = "string \<rightharpoonup> string"

definition ci_get :: "ci_dict \<Rightarrow> string \<Rightarrow> string \<Rightarrow> string" where
  "ci_get h key dflt = (case h (lower key) of None \<Rightarrow> dflt | Some v \<Rightarrow> v)"

definition ci_update :: "ci_dict \<Rightarrow> (string \<times> string) list \<Rightarrow> ci_dict" where
  "ci_update h kvs = fold (\<lambda>(k, v) m. m(lower k \<mapsto> v)) kvs h"

record response =
  status_code :: int
  headers :: ci_dict
  body_text :: string
  elapsed :: timedelta

section \<open>ResponseValidator (utils/validators.py)\<close>

text \<open>An \<^verbatim>\<open>assert\<close> that fails is \<open>Inl (AssertionError message)\<close>; a validator that
  returns is \<open>Inr ()\<close>.\<close>

definition validate_status_code :: "response \<Rightarrow> int \<Rightarrow> exn + unit" where
  "validate_status_code response expected_code =
     (if status_code response = expected_code then Inr ()
      else Inl (AssertionError
             [Lit ''Expected status '', Fmt_int expected_code, Lit '', got '',
              Fmt_int (status_code response), Lit ''. Response: '',
              Fmt_str (body_text response)]))"

definition response_time_ms :: "response \<Rightarrow> rat" where
  "response_time_ms response = float_mul_int (total_seconds (elapsed response)) 1000"

text \<open>The exact elapsed time in milliseconds, which \<open>response_time_ms\<close> approximates.\<close>

definition exact_ms :: "response \<Rightarrow> rat" where
  "exact_ms response = of_int (exact_us (elapsed response)) / 1000"

definition validate_response_time :: "response \<Rightarrow> int \<Rightarrow> exn + unit" where
  "validate_response_time response max_time_ms =
     (if response_time_ms response < of_int max_time_ms then Inr ()
      else Inl (AssertionError
             [Lit ''Response time '', Fmt_2f (response_time_ms response),
              Lit ''ms exceeds limit of '', Fmt_int max_time_ms, Lit ''ms'']))"

definition content_type :: "response \<Rightarrow> string" where
  "content_type response = ci_get (headers response) ''Content-Type'' ''''"

definition validate_content_type :: "response \<Rightarrow> string \<Rightarrow> exn + unit" where
  "validate_content_type response expected_type =
     (if str_contains expected_type (content_type response) then Inr ()
      else Inl (AssertionError
             [Lit ''Expected Content-Type '', Fmt_quoted expected_type, Lit '', got '',
              Fmt_quoted (content_type response)]))"

definition validate_field_exists :: "pydict \<Rightarrow> string \<Rightarrow> exn + unit" where
  "validate_field_exists response_json field_name =
     (if dict_contains response_json field_name then Inr ()
      else Inl (AssertionError
             [Lit ''Field '', Fmt_quoted field_name,
              Lit '' not found in response. Available fields: '',
              Fmt_keys (dict_keys response_json)]))"

definition validate_not_empty :: "pydict \<Rightarrow> string \<Rightarrow> exn + unit" where
  "validate_not_empty response_json field_name =
     (case validate_field_exists response_json field_name of
        Inl e \<Rightarrow> Inl e
      | Inr u \<Rightarrow>
          (case dict_getitem response_json field_name of
             Inl e \<Rightarrow> Inl e
           | Inr v \<Rightarrow>
               if \<not> py_in v [JNull, JStr '''', JArr [], JObj []] then Inr ()
               else Inl (AssertionError
                      [Lit ''Field '', Fmt_quoted field_name, Lit '' is empty: '', Fmt_val v])))"

section \<open>The schema library\<close>

text \<open>
  Modelled from the spec: \<^verbatim>\<open>jsonschema.validate\<close>, a third-party function that the
  repository imports and does not contain. The spec describes it as validating ``structural
  conformance (required members present, declared types match) using a declarative schema
  document''. The model covers the keywords that the repository's schemas use:
  \<^verbatim>\<open>type\<close>, \<^verbatim>\<open>properties\<close>, \<^verbatim>\<open>required\<close>, \<^verbatim>\<open>items\<close>, \<^verbatim>\<open>minItems\<close> and
  \<^verbatim>\<open>format\<close> (which the library does not check unless given a format checker). It
  speaks for schemas built from these six keywords only: any other keyword is passed over,
  also those that the library would check (\<^verbatim>\<open>minLength\<close>, \<^verbatim>\<open>enum\<close>, ...) or resolve
  (\<^verbatim>\<open>$ref\<close>), so nothing general about the library is proved from it; it is evaluated on
  the repository's schemas and on small ones of the same six keywords. As the library does,
  it first checks the schema itself and raises \<^verbatim>\<open>SchemaError\<close> for a malformed one, then
  collects the errors of the instance and raises one of them as \<^verbatim>\<open>ValidationError\<close>:
  one with the shortest path, and the first of those. How the library ranks errors of equal
  path length differs from version to version; errors of one keyword at one place, as those
  of \<^verbatim>\<open>required\<close>, rank equal and the first is raised. The messages follow the library's
  wording; nothing below rests on it.
\<close>

type_synonym verror = "msg \<times> path_elem list"

definition simple_types :: "string list" where
  "simple_types =
     [''array'', ''boolean'', ''integer'', ''null'', ''number'', ''object'', ''string'']"

definition is_type :: "json \<Rightarrow> string \<Rightarrow> bool" where
  "is_type inst t =
     (if t = ''object'' then (case inst of JObj kvs \<Rightarrow> True | _ \<Rightarrow> False)
      else if t = ''array'' then (case inst of JArr xs \<Rightarrow> True | _ \<Rightarrow> False)
      else if t = ''string'' then (case inst of JStr s \<Rightarrow> True | _ \<Rightarrow> False)
      else if t = ''boolean'' then (case inst of JBool b \<Rightarrow> True | _ \<Rightarrow> False)
      else if t = ''null'' then (case inst of JNull \<Rightarrow> True | _ \<Rightarrow> False)
      else if t = ''integer'' then
        (case inst of JInt n \<Rightarrow> True | JFloat x \<Rightarrow> of_int \<lfloor>x\<rfloor> = x | _ \<Rightarrow> False)
      else if t = ''number'' then
        (case inst of JInt n \<Rightarrow> True | JFloat x \<Rightarrow> True | _ \<Rightarrow> False)
      else False)"

definition type_names :: "json \<Rightarrow> string list" where
  "type_names v =
     (case v of
        JStr t \<Rightarrow> [t]
      | JArr ts \<Rightarrow> concat (map (\<lambda>t. case t of JStr n \<Rightarrow> [n] | _ \<Rightarrow> []) ts)
      | _ \<Rightarrow> [])"

definition is_str :: "json \<Rightarrow> bool" where
  "is_str v = (case v of JStr s \<Rightarrow> True | _ \<Rightarrow> False)"

text \<open>The keywords whose value holds no subschema: what the metaschema asks of the value,
  and the errors of an instance.\<close>

definition valid_plain_keyword :: "string \<Rightarrow> json \<Rightarrow> bool" where
  "valid_plain_keyword k v =
     (if k = ''type'' then
        (case v of
           JStr t \<Rightarrow> t \<in> set simple_types
         | JArr ts \<Rightarrow>
             ts \<noteq> [] \<and> list_all is_str ts \<and> set (type_names v) \<subseteq> set simple_types \<and>
             distinct ts
         | _ \<Rightarrow> False)
      else if k = ''required'' then
        (case v of JArr ns \<Rightarrow> list_all is_str ns \<and> distinct ns | _ \<Rightarrow> False)
      else if k = ''minItems'' then
        (case v of JInt n \<Rightarrow> 0 \<le> n | JFloat x \<Rightarrow> 0 \<le> x \<and> of_int \<lfloor>x\<rfloor> = x | _ \<Rightarrow> False)
      else if k = ''format'' then is_str v
      else True)"

fun join_reprs :: "string list \<Rightarrow> msg" where
  "join_reprs [] = []"
| "join_reprs [t] = [Fmt_repr (JStr t)]"
| "join_reprs (t # ts) = Fmt_repr (JStr t) # Lit '', '' # join_reprs ts"

definition plain_keyword_errors :: "json \<Rightarrow> string \<Rightarrow> json \<Rightarrow> verror list" where
  "plain_keyword_errors inst k v =
     (if k = ''type'' then
        (if list_ex (is_type inst) (type_names v) then []
         else [(Fmt_repr inst # Lit '' is not of type '' # join_reprs (type_names v), [])])
      else if k = ''required'' then
        (case inst of
           JObj members \<Rightarrow>
             concat (map (\<lambda>n. if dict_contains members n then []
                               else [([Fmt_repr (JStr n), Lit '' is a required property''], [])])
                      (type_names v))
         | _ \<Rightarrow> [])
      else if k = ''minItems'' then
        (case inst of
           JArr xs \<Rightarrow>
             (case v of
                JInt n \<Rightarrow>
                  if int (length xs) < n then [([Fmt_repr inst, Lit '' is too short''], [])]
                  else []
              | JFloat x \<Rightarrow>
                  if of_nat (length xs) < x then [([Fmt_repr inst, Lit '' is too short''], [])]
                  else []
              | _ \<Rightarrow> [])
         | _ \<Rightarrow> [])
      else [])"

definition at_path :: "path_elem \<Rightarrow> verror \<Rightarrow> verror" where
  "at_path p e = (fst e, p # snd e)"

function (sequential) valid_schema :: "json \<Rightarrow> bool" where
  "valid_schema (JBool b) = True"
| "valid_schema (JObj kvs) =
     list_all (\<lambda>(k, v).
        if k = ''properties'' then
          (case v of JObj props \<Rightarrow> list_all (\<lambda>(p, sub). valid_schema sub) props | _ \<Rightarrow> False)
        else if k = ''items'' then valid_schema v
        else valid_plain_keyword k v) kvs"
| "valid_schema s = False"
  by pat_completeness auto
termination
proof (relation "measure size")
  show "wf (measure size)" by simp
next
  fix kvs props :: pydict and kv psub :: "string \<times> json" and k v p sub
  assume "kv \<in> set kvs" "(k, v) = kv" "v = JObj props" "psub \<in> set props" "(p, sub) = psub"
  then show "(sub, JObj kvs) \<in> measure size"
    using size_json_item [of k v kvs] size_json_item [of p sub props] by simp
next
  fix kvs :: pydict and kv :: "string \<times> json" and k v
  assume "kv \<in> set kvs" "(k, v) = kv"
  then show "(v, JObj kvs) \<in> measure size"
    using size_json_item [of k v kvs] by simp
qed

function (sequential) iter_errors :: "json \<Rightarrow> json \<Rightarrow> verror list" where
  "iter_errors inst (JBool b) =
     (if b then [] else [([Lit ''False schema does not allow '', Fmt_repr inst], [])])"
| "iter_errors inst (JObj kvs) =
     concat (map (\<lambda>(k, v).
        if k = ''properties'' then
          (case inst of
             JObj members \<Rightarrow>
               (case v of
                  JObj props \<Rightarrow>
                    concat (map (\<lambda>(p, sub).
                       case map_of members p of
                         None \<Rightarrow> []
                       | Some x \<Rightarrow> map (at_path (Key p)) (iter_errors x sub)) props)
                | _ \<Rightarrow> [])
           | _ \<Rightarrow> [])
        else if k = ''items'' then
          (case inst of
             JArr xs \<Rightarrow>
               concat (map (\<lambda>(i, x). map (at_path (Index i)) (iter_errors x v)) (enumerate 0 xs))
           | _ \<Rightarrow> [])
        else plain_keyword_errors inst k v) kvs)"
| "iter_errors inst s = []"
  by pat_completeness auto
termination
proof (relation "measure (\<lambda>(inst, s). size s)")
  show "wf (measure (\<lambda>(inst, s). size s))" by simp
next
  fix inst :: json and kvs props members :: pydict and kv psub :: "string \<times> json" and k v p sub x
  assume "kv \<in> set kvs" "(k, v) = kv" "v = JObj props" "psub \<in> set props" "(p, sub) = psub"
  then show "((x, sub), inst, JObj kvs) \<in> measure (\<lambda>(inst, s). size s)"
    using size_json_item [of k v kvs] size_json_item [of p sub props] by simp
next
  fix inst :: json and kvs :: pydict and kv :: "string \<times> json" and k v x
  assume "kv \<in> set kvs" "(k, v) = kv"
  then show "((x, v), inst, JObj kvs) \<in> measure (\<lambda>(inst, s). size s)"
    using size_json_item [of k v kvs] by simp
qed

fun best_match :: "verror list \<Rightarrow> verror option" where
  "best_match [] = None"
| "best_match (e # es) =
     Some (fold (\<lambda>x best. if length (snd x) < length (snd best) then x else best) es e)"

text \<open>
  Before anything else the library looks for \<^verbatim>\<open>"$schema"\<close> in a schema that is neither
  \<^verbatim>\<open>True\<close> nor \<^verbatim>\<open>False\<close>; that \<^verbatim>\<open>in\<close> is a \<^verbatim>\<open>TypeError\<close> for \<^verbatim>\<open>None\<close> and
  for a number.
\<close>

definition not_a_container :: "json \<Rightarrow> bool" where
  "not_a_container schema =
     (case schema of JNull \<Rightarrow> True | JInt n \<Rightarrow> True | JFloat x \<Rightarrow> True | _ \<Rightarrow> False)"

definition jsonschema_validate :: "json \<Rightarrow> json \<Rightarrow> exn + unit" where
  "jsonschema_validate inst schema =
     (if not_a_container schema then Inl TypeError
      else if \<not> valid_schema schema then Inl SchemaError
      else case best_match (iter_errors inst schema) of
             None \<Rightarrow> Inr ()
           | Some e \<Rightarrow> Inl (ValidationError (fst e) (snd e)))"

text \<open>
  \<^verbatim>\<open>ResponseValidator.validate_json_schema\<close>. The library function is a parameter: the
  \<^verbatim>\<open>try\<close> returns \<^verbatim>\<open>True\<close> when it returns, the handler catches
  \<^verbatim>\<open>ValidationError\<close> alone, prints two lines and returns \<^verbatim>\<open>False\<close>, and any other
  exception leaves the function. The result comes with the lines printed.
\<close>

type_synonym validate_fn = "json \<Rightarrow> json \<Rightarrow> exn + unit"

definition validate_json_schema :: "validate_fn \<Rightarrow> json \<Rightarrow> json \<Rightarrow> (exn + bool) \<times> msg list" where
  "validate_json_schema validate response_json schema =
     (case validate response_json schema of
        Inr u \<Rightarrow> (Inr True, [])
      | Inl (ValidationError message path) \<Rightarrow>
          (Inr False,
           [Lit ''Schema validation failed: '' # message,
            [Lit ''Failed at path: '', Fmt_path path]])
      | Inl e \<Rightarrow> (Inl e, []))"

section \<open>TestData (data/test_data.py)\<close>

definition VALID_USER_CREATE :: pydict where
  "VALID_USER_CREATE =
     [(''name'', JStr ''John Doe''),
      (''username'', JStr ''johndoe''),
      (''email'', JStr ''john.doe@example.com''),
      (''phone'', JStr ''1-234-567-8901''),
      (''website'', JStr ''johndoe.com'')]"

definition INVALID_USER_MISSING_NAME :: pydict where
  "INVALID_USER_MISSING_NAME =
     [(''username'', JStr ''testuser''),
      (''email'', JStr ''test@example.com'')]"

definition USER_SCHEMA :: json where
  "USER_SCHEMA =
     JObj [(''type'', JStr ''object''),
           (''properties'',
              JObj [(''id'', JObj [(''type'', JStr ''integer'')]),
                    (''name'', JObj [(''type'', JStr ''string'')]),
                    (''username'', JObj [(''type'', JStr ''string'')]),
                    (''email'', JObj [(''type'', JStr ''string''), (''format'', JStr ''email'')]),
                    (''phone'', JObj [(''type'', JStr ''string'')]),
                    (''website'', JObj [(''type'', JStr ''string'')])]),
           (''required'', JArr [JStr ''id'', JStr ''name'', JStr ''username'', JStr ''email''])]"

definition USERS_LIST_SCHEMA :: json where
  "USERS_LIST_SCHEMA =
     JObj [(''type'', JStr ''array''), (''items'', USER_SCHEMA), (''minItems'', JInt 1)]"

definition MAX_RESPONSE_TIME_GET :: int where
  "MAX_RESPONSE_TIME_GET = 3000"

definition MAX_RESPONSE_TIME_POST :: int where
  "MAX_RESPONSE_TIME_POST = 3000"

section \<open>The HTTP library\<close>

text \<open>
  Modelled from the spec: \<^verbatim>\<open>requests.Session\<close>, a third-party class that the repository
  imports and does not contain. The spec's session context ``owns a reusable
  connection/header configuration'', its headers are ``sent on every request'', a call is
  ``blocking with an explicit timeout'', a timeout or connection failure ``propagates
  directly'', and ``no in-flight request mutates shared state''. So a session is its headers
  and whether it has been closed; a request carries the session's headers next to what the
  caller passes; the network answers a request with a response or a transport failure; and a
  request leaves the session as it was. A new session starts with the library's default
  headers, which are a parameter here.
\<close>

record prepared_request =
  req_method :: string
  req_url :: string
  req_params :: "pydict option"
  req_json :: "pydict option"
  req_headers :: ci_dict
  req_timeout :: "int option"

type_synonym network = "prepared_request \<Rightarrow> exn + response"

record session =
  session_headers :: ci_dict
  closed :: bool

definition new_session :: "ci_dict \<Rightarrow> session" where
  "new_session defaults = \<lparr>session_headers = defaults, closed = False\<rparr>"

definition session_request ::
  "network \<Rightarrow> session \<Rightarrow> string \<Rightarrow> string \<Rightarrow> pydict option \<Rightarrow> pydict option \<Rightarrow> int option
    \<Rightarrow> (exn + response) \<times> session" where
  "session_request net s method url params json_body tmo =
     (net \<lparr>req_method = method, req_url = url, req_params = params, req_json = json_body,
            req_headers = session_headers s, req_timeout = tmo\<rparr>, s)"

definition session_get ::
  "network \<Rightarrow> session \<Rightarrow> string \<Rightarrow> pydict option \<Rightarrow> int option \<Rightarrow> (exn + response) \<times> session" where
  "session_get net s url params tmo = session_request net s ''GET'' url params None tmo"

definition session_post ::
  "network \<Rightarrow> session \<Rightarrow> string \<Rightarrow> pydict option \<Rightarrow> int option \<Rightarrow> (exn + response) \<times> session" where
  "session_post net s url json_body tmo = session_request net s ''POST'' url None json_body tmo"

definition session_put ::
  "network \<Rightarrow> session \<Rightarrow> string \<Rightarrow> pydict option \<Rightarrow> int option \<Rightarrow> (exn + response) \<times> session" where
  "session_put net s url json_body tmo = session_request net s ''PUT'' url None json_body tmo"

definition session_patch ::
  "network \<Rightarrow> session \<Rightarrow> string \<Rightarrow> pydict option \<Rightarrow> int option \<Rightarrow> (exn + response) \<times> session" where
  "session_patch net s url json_body tmo = session_request net s ''PATCH'' url None json_body tmo"

definition session_delete ::
  "network \<Rightarrow> session \<Rightarrow> string \<Rightarrow> int option \<Rightarrow> (exn + response) \<times> session" where
  "session_delete net s url tmo = session_request net s ''DELETE'' url None None tmo"

definition session_close :: "session \<Rightarrow> session" where
  "session_close s = s\<lparr>closed := True\<rparr>"

section \<open>APIClient (utils/api_client.py)\<close>

text \<open>
  The client is its three attributes. A method takes the client and returns what the Python
  method returns or raises, together with the client afterwards.
\<close>

record api_client =
  base_url :: string
  timeout :: int
  session :: session

definition init :: "ci_dict \<Rightarrow> string \<Rightarrow> int \<Rightarrow> api_client" where
  "init defaults url tmo =
     (let s = new_session defaults in
      \<lparr>base_url = url, timeout = tmo,
       session = s\<lparr>session_headers :=
                     ci_update (session_headers s)
                       [(''Content-Type'', ''application/json''),
                        (''Accept'', ''application/json'')]\<rparr>\<rparr>)"

text \<open>The default of the \<^verbatim>\<open>timeout\<close> argument.\<close>

definition init_default :: "ci_dict \<Rightarrow> string \<Rightarrow> api_client" where
  "init_default defaults url = init defaults url 10"

definition get ::
  "network \<Rightarrow> api_client \<Rightarrow> string \<Rightarrow> pydict option \<Rightarrow> (exn + response) \<times> api_client" where
  "get net self endpoint params =
     (let url = base_url self @ endpoint;
          (response, s) = session_get net (session self) url params (Some (timeout self))
      in (response, self\<lparr>session := s\<rparr>))"

definition post ::
  "network \<Rightarrow> api_client \<Rightarrow> string \<Rightarrow> pydict option \<Rightarrow> (exn + response) \<times> api_client" where
  "post net self endpoint json_body =
     (let url = base_url self @ endpoint;
          (response, s) = session_post net (session self) url json_body (Some (timeout self))
      in (response, self\<lparr>session := s\<rparr>))"

definition put ::
  "network \<Rightarrow> api_client \<Rightarrow> string \<Rightarrow> pydict option \<Rightarrow> (exn + response) \<times> api_client" where
  "put net self endpoint json_body =
     (let url = base_url self @ endpoint;
          (response, s) = session_put net (session self) url json_body (Some (timeout self))
      in (response, self\<lparr>session := s\<rparr>))"

definition patch ::
  "network \<Rightarrow> api_client \<Rightarrow> string \<Rightarrow> pydict option \<Rightarrow> (exn + response) \<times> api_client" where
  "patch net self endpoint json_body =
     (let url = base_url self @ endpoint;
          (response, s) = session_patch net (session self) url json_body (Some (timeout self))
      in (response, self\<lparr>session := s\<rparr>))"

definition delete ::
  "network \<Rightarrow> api_client \<Rightarrow> string \<Rightarrow> (exn + response) \<times> api_client" where
  "delete net self endpoint =
     (let url = base_url self @ endpoint;
          (response, s) = session_delete net (session self) url (Some (timeout self))
      in (response, self\<lparr>session := s\<rparr>))"

definition close :: "api_client \<Rightarrow> api_client" where
  "close self = self\<lparr>session := session_close (session self)\<rparr>"

text \<open>
  \<^verbatim>\<open>__enter__\<close> returns the client itself. \<^verbatim>\<open>__exit__\<close> closes and falls off its end,
  so it returns \<^verbatim>\<open>None\<close> (\<open>JNull\<close>), whatever the three arguments are.
\<close>

definition enter :: "api_client \<Rightarrow> api_client" where
  "enter self = self"

definition exit :: "api_client \<Rightarrow> 't \<Rightarrow> 'v \<Rightarrow> 'b \<Rightarrow> json \<times> api_client" where
  "exit self exc_type exc_val exc_tb = (JNull, close self)"

subsection \<open>The with statement\<close>

text \<open>
  Python's \<^verbatim>\<open>with manager as client: suite\<close>: the suite runs on what \<^verbatim>\<open>__enter__\<close>
  returned; when it raises, \<^verbatim>\<open>__exit__\<close> gets the exception's type, value and traceback,
  and the exception is raised again unless \<^verbatim>\<open>__exit__\<close> returned a true value; when it
  does not raise, \<^verbatim>\<open>__exit__\<close> gets three \<^verbatim>\<open>None\<close>s. The statement has no value of its
  own: \<open>Inr (Some a)\<close> is a suite that ended with \<open>a\<close>, \<open>Inr None\<close> a suppressed
  exception.
\<close>

fun py_truthy :: "json \<Rightarrow> bool" where
  "py_truthy JNull = False"
| "py_truthy (JBool b) = b"
| "py_truthy (JInt n) = (n \<noteq> 0)"
| "py_truthy (JFloat x) = (x \<noteq> 0)"
| "py_truthy (JStr s) = (s \<noteq> [])"
| "py_truthy (JArr xs) = (xs \<noteq> [])"
| "py_truthy (JObj kvs) = (kvs \<noteq> [])"

fun exn_type :: "exn \<Rightarrow> string" where
  "exn_type (AssertionError m) = ''AssertionError''"
| "exn_type (KeyError k) = ''KeyError''"
| "exn_type (ValidationError m p) = ''ValidationError''"
| "exn_type SchemaError = ''SchemaError''"
| "exn_type TypeError = ''TypeError''"
| "exn_type Timeout = ''Timeout''"
| "exn_type ConnectionError = ''ConnectionError''"

definition with_stmt ::
  "api_client \<Rightarrow> (api_client \<Rightarrow> (exn + 'a) \<times> api_client) \<Rightarrow> (exn + 'a option) \<times> api_client" where
  "with_stmt manager suite =
     (let (outcome, c1) = suite (enter manager) in
      case outcome of
        Inr a \<Rightarrow>
          (let (r, c2) = exit c1 (None :: string option) (None :: exn option) (None :: unit option)
           in (Inr (Some a), c2))
      | Inl e \<Rightarrow>
          (let (r, c2) = exit c1 (Some (exn_type e)) (Some e) (Some ())
           in if py_truthy r then (Inr None, c2) else (Inl e, c2)))"

section \<open>APIEndpoints (utils/api_endpoints.py)\<close>

definition BASE_URL :: string where
  "BASE_URL = ''https://jsonplaceholder.typicode.com''"

definition USERS :: string where
  "USERS = ''/users''"

definition USER_BY_ID :: string where
  "USER_BY_ID = ''/users/{user_id}''"

definition POSTS :: string where
  "POSTS = ''/posts''"

definition POST_BY_ID :: string where
  "POST_BY_ID = ''/posts/{post_id}''"

definition USER_POSTS :: string where
  "USER_POSTS = ''/posts?userId={user_id}''"

definition COMMENTS :: string where
  "COMMENTS = ''/comments''"

definition COMMENT_BY_ID :: string where
  "COMMENT_BY_ID = ''/comments/{comment_id}''"

definition POST_COMMENTS :: string where
  "POST_COMMENTS = ''/posts/{post_id}/comments''"

definition ALBUMS :: string where
  "ALBUMS = ''/albums''"

definition ALBUM_BY_ID :: string where
  "ALBUM_BY_ID = ''/albums/{album_id}''"

definition USER_ALBUMS :: string where
  "USER_ALBUMS = ''/albums?userId={user_id}''"

definition PHOTOS :: string where
  "PHOTOS = ''/photos''"

definition PHOTO_BY_ID :: string where
  "PHOTO_BY_ID = ''/photos/{photo_id}''"

definition get_full_url :: "string \<Rightarrow> string" where
  "get_full_url endpoint = BASE_URL @ endpoint"

section \<open>Properties of the schema check\<close>

lemma validate_json_schema_lib:
  "validate_json_schema jsonschema_validate i (JObj kvs) =
     (if \<not> valid_schema (JObj kvs) then (Inl SchemaError, [])
      else case best_match (iter_errors i (JObj kvs)) of
             None \<Rightarrow> (Inr True, [])
           | Some e \<Rightarrow> (Inr False, [Lit ''Schema validation failed: '' # fst e,
                                    [Lit ''Failed at path: '', Fmt_path (snd e)]]))"
  by (simp add: validate_json_schema_def jsonschema_validate_def not_a_container_def
      split: option.split)

lemmas schema_eval =
  USER_SCHEMA_def VALID_USER_CREATE_def INVALID_USER_MISSING_NAME_def
  valid_plain_keyword_def plain_keyword_errors_def simple_types_def is_str_def type_names_def
  is_type_def dict_contains_def at_path_def

lemma valid_schema_USER_SCHEMA: "valid_schema USER_SCHEMA"
  by (simp add: schema_eval)

text \<open>
  C1 (as amended). What \<^verbatim>\<open>validate_json_schema\<close> does follows what the library call
  does, whatever library stands behind it. When the call returns, the function returns
  \<^verbatim>\<open>True\<close> and prints nothing. When the call raises \<^verbatim>\<open>ValidationError\<close>, the function
  prints that error's message and its path and returns \<^verbatim>\<open>False\<close>. When the call raises
  anything else, the function raises it too, the handler catching \<^verbatim>\<open>ValidationError\<close>
  alone. So the function returns a boolean exactly when the call returns or raises
  \<^verbatim>\<open>ValidationError\<close>.
\<close>

theorem validate_json_schema_outcomes:
  "(lib i s = Inr () \<longrightarrow> validate_json_schema lib i s = (Inr True, []))
   \<and> (lib i s = Inl (ValidationError m p) \<longrightarrow>
         validate_json_schema lib i s =
           (Inr False, [Lit ''Schema validation failed: '' # m, [Lit ''Failed at path: '', Fmt_path p]]))
   \<and> (lib i s = Inl e \<longrightarrow> (\<forall>m p. e \<noteq> ValidationError m p) \<longrightarrow>
         validate_json_schema lib i s = (Inl e, []))
   \<and> ((\<exists>b. fst (validate_json_schema lib i s) = Inr b) =
        (lib i s = Inr () \<or> (\<exists>m p. lib i s = Inl (ValidationError m p))))"
proof -
  have a: "lib i s = Inr () \<Longrightarrow> validate_json_schema lib i s = (Inr True, [])"
    by (simp add: validate_json_schema_def)
  have b: "validate_json_schema lib i s =
        (Inr False, [Lit ''Schema validation failed: '' # m, [Lit ''Failed at path: '', Fmt_path p]])"
    if "lib i s = Inl (ValidationError m p)" for m p
    using that by (simp add: validate_json_schema_def)
  have c: "validate_json_schema lib i s = (Inl e, [])"
    if "lib i s = Inl e" "\<forall>m p. e \<noteq> ValidationError m p" for e
    using that by (cases e) (simp_all add: validate_json_schema_def)
  have d: "(\<exists>b. fst (validate_json_schema lib i s) = Inr b) =
      (lib i s = Inr () \<or> (\<exists>m p. lib i s = Inl (ValidationError m p)))"
  proof (cases "lib i s")
    case (Inr u)
    with a have "fst (validate_json_schema lib i s) = Inr True" by simp
    with Inr show ?thesis by auto
  next
    case (Inl x)
    show ?thesis
    proof (cases "\<exists>m p. x = ValidationError m p")
      case True
      then obtain m p where "x = ValidationError m p" by blast
      with Inl b [of m p] show ?thesis by auto
    next
      case False
      with Inl c [of x] show ?thesis by auto
    qed
  qed
  show ?thesis using a b c d by blast
qed

text \<open>
  The three outcomes with the library as modelled: an object against
  \<^verbatim>\<open>{"type": "object"}\<close>, a list against the same schema, and the malformed schema
  \<^verbatim>\<open>{"type": "int"}\<close>.
\<close>

theorem validate_json_schema_outcomes_witness:
  "validate_json_schema jsonschema_validate (JObj []) (JObj [(''type'', JStr ''object'')]) = (Inr True, [])
   \<and> validate_json_schema jsonschema_validate (JArr []) (JObj [(''type'', JStr ''object'')]) =
       (Inr False,
        [[Lit ''Schema validation failed: '', Fmt_repr (JArr []), Lit '' is not of type '',
          Fmt_repr (JStr ''object'')],
         [Lit ''Failed at path: '', Fmt_path []]])
   \<and> validate_json_schema jsonschema_validate (JObj []) (JObj [(''type'', JStr ''int'')]) =
       (Inl SchemaError, [])"
proof -
  let ?ok = "JObj [(''type'', JStr ''object'')]"
  let ?bad = "JObj [(''type'', JStr ''int'')]"
  have 1: "jsonschema_validate (JObj []) ?ok = Inr ()"
    by (simp add: jsonschema_validate_def not_a_container_def schema_eval)
  have 2: "jsonschema_validate (JArr []) ?ok =
      Inl (ValidationError [Fmt_repr (JArr []), Lit '' is not of type '', Fmt_repr (JStr ''object'')] [])"
    by (simp add: jsonschema_validate_def not_a_container_def schema_eval)
  have 3: "jsonschema_validate (JObj []) ?bad = Inl SchemaError"
    by (simp add: jsonschema_validate_def not_a_container_def schema_eval)
  show ?thesis
    using validate_json_schema_outcomes [where lib = jsonschema_validate and i = "JObj []"
        and s = ?ok] 1
      validate_json_schema_outcomes [where lib = jsonschema_validate and i = "JArr []"
        and s = ?ok and p = "[]"
        and m = "[Fmt_repr (JArr []), Lit '' is not of type '', Fmt_repr (JStr ''object'')]"] 2
      validate_json_schema_outcomes [where lib = jsonschema_validate and i = "JObj []"
        and s = ?bad and e = SchemaError] 3
    by simp
qed

text \<open>
  C1 as stated fails: \<^verbatim>\<open>validate_json_schema({}, {"type": "int"})\<close> does not return a
  boolean, it raises \<^verbatim>\<open>SchemaError\<close>.
\<close>

theorem validate_json_schema_raises_SchemaError:
  "fst (validate_json_schema jsonschema_validate (JObj []) (JObj [(''type'', JStr ''int'')])) =
     Inl SchemaError"
  by (simp add: validate_json_schema_lib schema_eval)




section \<open>Properties of the assertions\<close>

subsection \<open>How far the computed milliseconds are from the elapsed time\<close>

lemma round_half_even_err: "\<bar>of_int (round_half_even x) - x\<bar> \<le> 1 / 2"
proof -
  have "of_int \<lfloor>x\<rfloor> \<le> x" "x < of_int \<lfloor>x\<rfloor> + 1"
    by linarith+
  then show ?thesis
    by (auto simp: round_half_even_def Let_def)
qed

lemma bitlen_powi_bounds:
  assumes "0 < (p :: int)"
  shows "2 powi (bitlen p - 1) \<le> (of_int p :: rat)" "(of_int p :: rat) < 2 powi bitlen p"
proof -
  from assms have b: "2 ^ nat (bitlen p - 1) \<le> p" "p < 2 ^ nat (bitlen p)"
    using bitlen_bounds [of p] by auto
  have ge1: "1 \<le> bitlen p"
    using assms by (auto simp: bitlen_alt_def)
  have "(2 :: rat) powi (bitlen p - 1) = 2 ^ nat (bitlen p - 1)"
    using ge1 by (simp add: power_int_def)
  also have "\<dots> = of_int (2 ^ nat (bitlen p - 1))" by simp
  also have "\<dots> \<le> of_int p" using b(1) by (simp only: of_int_le_iff)
  finally show "2 powi (bitlen p - 1) \<le> (of_int p :: rat)" .
  have "(of_int p :: rat) < of_int (2 ^ nat (bitlen p))"
    using b(2) by (simp only: of_int_less_iff)
  also have "\<dots> = 2 ^ nat (bitlen p)" by simp
  also have "\<dots> = 2 powi bitlen p"
    using ge1 by (simp add: power_int_def)
  finally show "(of_int p :: rat) < 2 powi bitlen p" .
qed

text \<open>\<open>floor_log2\<close> is the exponent of the power of two at or below a positive number.\<close>

lemma floor_log2_bounds:
  assumes "0 < a"
  shows "2 powi floor_log2 a \<le> a" "a < 2 powi (floor_log2 a + 1)"
proof -
  obtain p q where pq: "quotient_of a = (p, q)" by (cases "quotient_of a")
  then have q: "0 < q" by (rule quotient_of_denom_pos)
  have a: "a = of_int p / of_int q" using pq by (rule quotient_of_div)
  with assms q have p: "0 < p" by (simp add: zero_less_divide_iff)
  let ?k = "bitlen p - bitlen q"
  have lo: "2 powi (?k - 1) \<le> a"
  proof -
    have "(2 :: rat) powi (?k - 1) = 2 powi (bitlen p - 1) / 2 powi bitlen q"
      using power_int_diff [of "2 :: rat" "bitlen p - 1" "bitlen q"] by (simp add: algebra_simps)
    also have "\<dots> \<le> of_int p / of_int q"
      using bitlen_powi_bounds [OF p] bitlen_powi_bounds [OF q] p q
      by (intro frac_le) auto
    finally show ?thesis by (simp add: a)
  qed
  have hi: "a < 2 powi (?k + 1)"
  proof -
    have "a = of_int p / of_int q" by (rule a)
    also have "\<dots> < 2 powi bitlen p / 2 powi (bitlen q - 1)"
      using bitlen_powi_bounds [OF p] bitlen_powi_bounds [OF q] p q
      by (intro frac_less) auto
    also have "\<dots> = 2 powi (?k + 1)"
      using power_int_diff [of "2 :: rat" "bitlen p" "bitlen q - 1"] by (simp add: algebra_simps)
    finally show ?thesis .
  qed
  have fl: "floor_log2 a = (if 2 powi ?k \<le> a then ?k else ?k - 1)"
    by (simp add: floor_log2_def pq)
  show "2 powi floor_log2 a \<le> a"
    using lo by (simp add: fl)
  show "a < 2 powi (floor_log2 a + 1)"
    using hi by (simp add: fl)
qed

text \<open>In the normal range, rounding to a double moves a number by at most half a unit in
  the last place, which is at most \<open>2\<^sup>-\<^sup>5\<^sup>3\<close> of the number.\<close>

lemma round_double_err:
  assumes "2 powi (- 1022) \<le> x"
  shows "\<bar>round_double x - x\<bar> \<le> x / 2 ^ 53"
proof -
  have pos: "0 < x"
    using assms zero_less_power_int [of "2 :: rat" "- 1022"] by linarith
  let ?fl = "floor_log2 x"
  have lo: "2 powi ?fl \<le> x" and hi: "x < 2 powi (?fl + 1)"
    using floor_log2_bounds [OF pos] by auto
  have "- 1022 < ?fl + 1"
  proof (rule ccontr)
    assume "\<not> - 1022 < ?fl + 1"
    then have "?fl + 1 \<le> - 1022" by simp
    then have "(2 :: rat) powi (?fl + 1) \<le> 2 powi (- 1022)"
      by (intro power_int_increasing) auto
    with hi assms show False by linarith
  qed
  then have e: "max (- 1074) (?fl - 52) = ?fl - 52" by simp
  let ?w = "(2 :: rat) powi (?fl - 52)"
  let ?m = "round_half_even (x / ?w)"
  have w: "0 < ?w" by simp
  have w52: "?w = 2 powi ?fl / 2 ^ 52"
    using power_int_diff [of "2 :: rat" ?fl 52] by simp
  have rd: "round_double x = of_int ?m * ?w"
    using pos e by (simp add: round_double_def Let_def)
  have "\<bar>of_int ?m - x / ?w\<bar> \<le> 1 / 2" by (rule round_half_even_err)
  then have "\<bar>of_int ?m - x / ?w\<bar> * ?w \<le> 1 / 2 * ?w"
    using w by (intro mult_right_mono) auto
  moreover have "\<bar>of_int ?m - x / ?w\<bar> * ?w = \<bar>of_int ?m * ?w - x\<bar>"
  proof -
    have "\<bar>of_int ?m - x / ?w\<bar> * ?w = \<bar>(of_int ?m - x / ?w) * ?w\<bar>"
      using w by (simp add: abs_mult)
    also have "(of_int ?m - x / ?w) * ?w = of_int ?m * ?w - x"
      using w by (simp add: field_simps)
    finally show ?thesis .
  qed
  ultimately have "\<bar>round_double x - x\<bar> \<le> ?w / 2" by (simp add: rd)
  also have "?w / 2 \<le> x / 2 ^ 53"
    using lo by (simp add: w52)
  finally show ?thesis .
qed

lemma round_double_0: "round_double 0 = 0"
  by (simp add: round_double_def)

lemma round_double_1000: "round_double 1000 = 1000"
  by code_simp

lemma two_powi_small: "(2 :: rat) powi (- 1022) \<le> 1 / 2 ^ 21"
proof -
  have "(2 :: rat) powi (- 1022) \<le> 2 powi (- 21)"
    by (intro power_int_increasing) auto
  also have "(2 :: rat) powi (- 21) = 1 / 2 ^ 21"
    by (simp add: power_int_minus field_simps)
  finally show ?thesis .
qed

lemma two_roundings_low:
  fixes t x :: rat
  assumes "\<bar>t - x\<bar> \<le> x / 2 ^ 53" "1 / 10 ^ 6 \<le> x"
  shows "1 / 2 ^ 21 \<le> t * 1000"
proof -
  have "x - t \<le> x / 2 ^ 53"
    using assms(1) by (simp only: abs_le_iff) linarith
  then have "x * (1 - 1 / 2 ^ 53) \<le> t" by (simp add: algebra_simps)
  moreover have "1 / 10 ^ 6 * (1 - 1 / 2 ^ 53) \<le> x * (1 - 1 / 2 ^ 53)"
    using assms(2) by (intro mult_right_mono) auto
  ultimately have "1 / 10 ^ 6 * (1 - 1 / 2 ^ 53) \<le> t" by (rule order_trans [rotated])
  then show ?thesis by simp
qed

lemma two_roundings:
  fixes t x m :: rat
  assumes "\<bar>t - x\<bar> \<le> x / 2 ^ 53" "\<bar>m - t * 1000\<bar> \<le> t * 1000 / 2 ^ 53" "0 \<le> x"
  shows "1000 * x * (1 - 1 / 2 ^ 51) \<le> m \<and> m \<le> 1000 * x * (1 + 1 / 2 ^ 51)"
proof -
  have "x - t \<le> x / 2 ^ 53" "t - x \<le> x / 2 ^ 53"
    using assms(1) by (simp_all only: abs_le_iff) linarith+
  then have t: "x * (1 - 1 / 2 ^ 53) \<le> t" "t \<le> x * (1 + 1 / 2 ^ 53)"
    by (simp_all add: algebra_simps)
  have "t * 1000 - m \<le> t * 1000 / 2 ^ 53" "m - t * 1000 \<le> t * 1000 / 2 ^ 53"
    using assms(2) by (simp_all only: abs_le_iff) linarith+
  then have m: "t * 1000 * (1 - 1 / 2 ^ 53) \<le> m" "m \<le> t * 1000 * (1 + 1 / 2 ^ 53)"
    by (simp_all add: algebra_simps)
  have "x * (1 - 1 / 2 ^ 53) * (1000 * (1 - 1 / 2 ^ 53)) \<le> t * (1000 * (1 - 1 / 2 ^ 53))"
    using t(1) by (intro mult_right_mono) auto
  with m(1) have lo: "x * (1 - 1 / 2 ^ 53) * (1000 * (1 - 1 / 2 ^ 53)) \<le> m"
    by (simp add: algebra_simps)
  have "t * (1000 * (1 + 1 / 2 ^ 53)) \<le> x * (1 + 1 / 2 ^ 53) * (1000 * (1 + 1 / 2 ^ 53))"
    using t(2) by (intro mult_right_mono) auto
  with m(2) have hi: "m \<le> x * (1 + 1 / 2 ^ 53) * (1000 * (1 + 1 / 2 ^ 53))"
    by (simp add: algebra_simps)
  have c1: "x * (1000 * (1 - 1 / 2 ^ 51)) \<le> x * ((1 - 1 / 2 ^ 53) * (1000 * (1 - 1 / 2 ^ 53)))"
    using assms(3) by (intro mult_left_mono) auto
  have c2: "x * ((1 + 1 / 2 ^ 53) * (1000 * (1 + 1 / 2 ^ 53))) \<le> x * (1000 * (1 + 1 / 2 ^ 51))"
    using assms(3) by (intro mult_left_mono) auto
  have lo': "x * ((1 - 1 / 2 ^ 53) * (1000 * (1 - 1 / 2 ^ 53))) \<le> m"
    using lo by (simp only: mult.assoc)
  have hi': "m \<le> x * ((1 + 1 / 2 ^ 53) * (1000 * (1 + 1 / 2 ^ 53)))"
    using hi by (simp only: mult.assoc)
  from c1 lo' have "x * (1000 * (1 - 1 / 2 ^ 51)) \<le> m"
    by (rule order_trans)
  moreover from hi' c2 have "m \<le> x * (1000 * (1 + 1 / 2 ^ 51))"
    by (rule order_trans)
  ultimately show ?thesis by (simp add: mult.commute mult.left_commute)
qed

text \<open>The two roundings of \<^verbatim>\<open>total_seconds() * 1000\<close> keep the result within
  \<open>2\<^sup>-\<^sup>5\<^sup>1\<close> of the exact milliseconds, relatively.\<close>

lemma response_time_ms_bounds:
  assumes "0 \<le> exact_us (elapsed r)"
  shows "exact_ms r * (1 - 1 / 2 ^ 51) \<le> response_time_ms r"
    and "response_time_ms r \<le> exact_ms r * (1 + 1 / 2 ^ 51)"
proof -
  let ?n = "exact_us (elapsed r)"
  let ?x = "of_int ?n / 10 ^ 6 :: rat"
  let ?t = "round_double ?x"
  let ?y = "?t * 1000"
  have ts: "total_seconds (elapsed r) = ?t"
    by (simp add: total_seconds_def int_truediv_def exact_us_def)
  have ms: "response_time_ms r = round_double ?y"
    by (simp add: response_time_ms_def float_mul_int_def ts round_double_1000)
  have ex: "exact_ms r = 1000 * ?x"
    by (simp add: exact_ms_def)
  have both: "1000 * ?x * (1 - 1 / 2 ^ 51) \<le> round_double ?y \<and>
      round_double ?y \<le> 1000 * ?x * (1 + 1 / 2 ^ 51)"
  proof (cases "?n = 0")
    case True
    then show ?thesis by (simp add: round_double_0)
  next
    case False
    with assms have "1 \<le> ?n" by simp
    then have "(1 :: rat) \<le> of_int ?n" by simp
    then have x: "1 / 10 ^ 6 \<le> ?x" by (simp add: field_simps)
    have "(1 :: rat) / 2 ^ 21 \<le> 1 / 10 ^ 6" by simp
    with two_powi_small x have "2 powi (- 1022) \<le> ?x" by (meson order_trans)
    then have t: "\<bar>?t - ?x\<bar> \<le> ?x / 2 ^ 53" by (rule round_double_err)
    from two_powi_small two_roundings_low [OF t x] have "2 powi (- 1022) \<le> ?y"
      by (rule order_trans)
    then have y: "\<bar>round_double ?y - ?y\<bar> \<le> ?y / 2 ^ 53" by (rule round_double_err)
    have "0 \<le> ?x" using x by (meson order_trans zero_le_divide_1_iff zero_le_numeral zero_le_power)
    with t y show ?thesis by (rule two_roundings)
  qed
  show "exact_ms r * (1 - 1 / 2 ^ 51) \<le> response_time_ms r"
    using both unfolding ms ex by (rule conjunct1)
  show "response_time_ms r \<le> exact_ms r * (1 + 1 / 2 ^ 51)"
    using both unfolding ms ex by (rule conjunct2)
qed

lemma below_threshold:
  fixes x ms :: rat
  assumes "ms \<le> x * (1 + 1 / 2 ^ 51)" "x \<le> of_int m - 1 / 1000" "m \<le> 10 ^ 12"
  shows "ms < of_int m"
proof -
  have "x * (1 + 1 / 2 ^ 51) \<le> (of_int m - 1 / 1000) * (1 + 1 / 2 ^ 51)"
    using assms(2) by (intro mult_right_mono) auto
  moreover have "(of_int m :: rat) \<le> 10 ^ 12"
    using assms(3) by (metis of_int_le_iff of_int_numeral of_int_power)
  then have "(of_int m - 1 / 1000) * (1 + 1 / 2 ^ 51) < (of_int m :: rat)"
    by (simp add: algebra_simps)
  ultimately show ?thesis using assms(1) by linarith
qed

lemma above_threshold:
  fixes x ms :: rat
  assumes "x * (1 - 1 / 2 ^ 51) \<le> ms" "of_int m + 1 / 1000 \<le> x" "m \<le> 10 ^ 12"
  shows "of_int m \<le> ms"
proof -
  have "(of_int m + 1 / 1000) * (1 - 1 / 2 ^ 51) \<le> x * (1 - 1 / 2 ^ 51)"
    using assms(2) by (intro mult_right_mono) auto
  moreover have "(of_int m :: rat) \<le> 10 ^ 12"
    using assms(3) by (metis of_int_le_iff of_int_numeral of_int_power)
  then have "(of_int m :: rat) \<le> (of_int m + 1 / 1000) * (1 - 1 / 2 ^ 51)"
    by (simp add: algebra_simps)
  ultimately show ?thesis using assms(1) by linarith
qed

lemma exact_ms_less_iff: "exact_ms r < of_int m \<longleftrightarrow> exact_ms r \<le> of_int m - 1 / 1000"
proof -
  let ?n = "exact_us (elapsed r)"
  have "exact_ms r < of_int m \<longleftrightarrow> (of_int ?n :: rat) < of_int (1000 * m)"
    by (simp add: exact_ms_def field_simps)
  also have "\<dots> \<longleftrightarrow> ?n < 1000 * m" by (simp only: of_int_less_iff)
  also have "\<dots> \<longleftrightarrow> ?n \<le> 1000 * m - 1" by linarith
  also have "\<dots> \<longleftrightarrow> (of_int ?n :: rat) \<le> of_int (1000 * m - 1)" by (simp only: of_int_le_iff)
  also have "\<dots> \<longleftrightarrow> exact_ms r \<le> of_int m - 1 / 1000"
    by (auto simp: exact_ms_def field_simps)
  finally show ?thesis .
qed

lemma exact_ms_greater_iff: "of_int m < exact_ms r \<longleftrightarrow> of_int m + 1 / 1000 \<le> exact_ms r"
proof -
  let ?n = "exact_us (elapsed r)"
  have "of_int m < exact_ms r \<longleftrightarrow> (of_int (1000 * m) :: rat) < of_int ?n"
    by (simp add: exact_ms_def field_simps)
  also have "\<dots> \<longleftrightarrow> 1000 * m < ?n" by (simp only: of_int_less_iff)
  also have "\<dots> \<longleftrightarrow> 1000 * m + 1 \<le> ?n" by linarith
  also have "\<dots> \<longleftrightarrow> (of_int (1000 * m + 1) :: rat) \<le> of_int ?n" by (simp only: of_int_le_iff)
  also have "\<dots> \<longleftrightarrow> of_int m + 1 / 1000 \<le> exact_ms r"
    by (auto simp: exact_ms_def field_simps)
  finally show ?thesis .
qed

subsection \<open>The latency check\<close>

text \<open>
  C2 (as amended). For a response whose elapsed time is not negative and a threshold of at
  most \<open>10\<^sup>1\<^sup>2\<close> milliseconds, \<^verbatim>\<open>validate_response_time\<close> passes when the elapsed time
  in milliseconds is strictly less than the threshold, and raises when it is strictly greater:
  an \<^verbatim>\<open>AssertionError\<close> whose message holds the milliseconds computed and the threshold.
  In every case it passes exactly when the \<^verbatim>\<open>float\<close> that it computes,
  \<^verbatim>\<open>total_seconds() * 1000\<close>, is strictly below the threshold, and raises exactly when
  that \<^verbatim>\<open>float\<close> is equal to the threshold or above it; the \<^verbatim>\<open>float\<close> is within
  \<open>2\<^sup>-\<^sup>5\<^sup>1\<close> of the elapsed milliseconds, relatively. What happens when the elapsed time
  equals the threshold is left to that rounding.
\<close>

theorem validate_response_time_threshold:
  assumes "0 \<le> exact_us (elapsed r)" and "m \<le> 10 ^ 12"
  shows "(exact_ms r < of_int m \<longrightarrow> validate_response_time r m = Inr ())
   \<and> (of_int m < exact_ms r \<longrightarrow>
        validate_response_time r m = Inl (AssertionError
          [Lit ''Response time '', Fmt_2f (response_time_ms r), Lit ''ms exceeds limit of '',
           Fmt_int m, Lit ''ms'']))
   \<and> (validate_response_time r m = Inr ()) = (response_time_ms r < of_int m)
   \<and> (validate_response_time r m = Inl (AssertionError
          [Lit ''Response time '', Fmt_2f (response_time_ms r), Lit ''ms exceeds limit of '',
           Fmt_int m, Lit ''ms''])) = (of_int m \<le> response_time_ms r)
   \<and> exact_ms r * (1 - 1 / 2 ^ 51) \<le> response_time_ms r
   \<and> response_time_ms r \<le> exact_ms r * (1 + 1 / 2 ^ 51)"
proof -
  note b = response_time_ms_bounds [OF assms(1)]
  have below: "response_time_ms r < of_int m" if "exact_ms r < of_int m"
    using that b(2) assms(2) below_threshold [of "response_time_ms r" "exact_ms r" m]
    by (simp add: exact_ms_less_iff)
  have above: "of_int m \<le> response_time_ms r" if "of_int m < exact_ms r"
    using that b(1) assms(2) above_threshold [of "exact_ms r" "response_time_ms r" m]
    by (simp add: exact_ms_greater_iff)
  have pass: "(validate_response_time r m = Inr ()) = (response_time_ms r < of_int m)"
    by (simp add: validate_response_time_def)
  have fail: "(validate_response_time r m = Inl (AssertionError
          [Lit ''Response time '', Fmt_2f (response_time_ms r), Lit ''ms exceeds limit of '',
           Fmt_int m, Lit ''ms''])) = (of_int m \<le> response_time_ms r)"
    by (auto simp: validate_response_time_def)
  show ?thesis
    using below above pass fail b by blast
qed

text \<open>
  With the threshold of the tests: one microsecond less than three seconds passes, one
  microsecond more fails, and so do three seconds exactly, where the \<^verbatim>\<open>float\<close> is 3000.
\<close>

theorem validate_response_time_threshold_witness:
  "validate_response_time
     \<lparr>status_code = 200, headers = Map.empty, body_text = '''',
      elapsed = \<lparr>days = 0, seconds = 2, microseconds = 999999\<rparr>\<rparr> MAX_RESPONSE_TIME_GET = Inr ()
   \<and> validate_response_time
     \<lparr>status_code = 200, headers = Map.empty, body_text = '''',
      elapsed = \<lparr>days = 0, seconds = 3, microseconds = 1\<rparr>\<rparr> MAX_RESPONSE_TIME_GET =
     Inl (AssertionError
       [Lit ''Response time '',
        Fmt_2f (response_time_ms
          \<lparr>status_code = 200, headers = Map.empty, body_text = '''',
           elapsed = \<lparr>days = 0, seconds = 3, microseconds = 1\<rparr>\<rparr>),
        Lit ''ms exceeds limit of '', Fmt_int 3000, Lit ''ms''])
   \<and> validate_response_time
     \<lparr>status_code = 200, headers = Map.empty, body_text = '''',
      elapsed = \<lparr>days = 0, seconds = 3, microseconds = 0\<rparr>\<rparr> MAX_RESPONSE_TIME_GET =
     Inl (AssertionError
       [Lit ''Response time '', Fmt_2f 3000, Lit ''ms exceeds limit of '', Fmt_int 3000, Lit ''ms''])"
proof -
  let ?fast = "\<lparr>status_code = 200, headers = Map.empty, body_text = '''',
      elapsed = \<lparr>days = 0, seconds = 2, microseconds = 999999\<rparr>\<rparr>"
  let ?slow = "\<lparr>status_code = 200, headers = Map.empty, body_text = '''',
      elapsed = \<lparr>days = 0, seconds = 3, microseconds = 1\<rparr>\<rparr>"
  let ?edge = "\<lparr>status_code = 200, headers = Map.empty, body_text = '''',
      elapsed = \<lparr>days = 0, seconds = 3, microseconds = 0\<rparr>\<rparr>"
  have fast: "0 \<le> exact_us (elapsed ?fast)" "exact_ms ?fast < of_int 3000"
    by (simp_all add: exact_ms_def exact_us_def)
  have slow: "0 \<le> exact_us (elapsed ?slow)" "of_int 3000 < exact_ms ?slow"
    by (simp_all add: exact_ms_def exact_us_def)
  have edge: "0 \<le> exact_us (elapsed ?edge)"
    by (simp add: exact_us_def)
  have "float_mul_int (int_truediv 3000000 1000000) 1000 = 3000"
    by code_simp
  then have edge_ms: "response_time_ms ?edge = 3000"
    by (simp add: response_time_ms_def total_seconds_def)
  have m: "(3000 :: int) \<le> 10 ^ 12" by simp
  show ?thesis
    using validate_response_time_threshold [OF fast(1) m] fast(2)
      validate_response_time_threshold [OF slow(1) m] slow(2)
      validate_response_time_threshold [OF edge m] edge_ms
    by (simp add: MAX_RESPONSE_TIME_GET_def)
qed

text \<open>
  C2 as stated fails: an elapsed time of one second and 1000 microseconds is 1001
  milliseconds exactly, equal to a threshold of 1001, and \<^verbatim>\<open>validate_response_time\<close>
  passes. The \<^verbatim>\<open>float\<close> of \<^verbatim>\<open>1.001 * 1000\<close> is \<^verbatim>\<open>1000.9999999999999\<close>.
\<close>

theorem validate_response_time_passes_at_threshold:
  "exact_ms \<lparr>status_code = 200, headers = Map.empty, body_text = '''',
      elapsed = \<lparr>days = 0, seconds = 1, microseconds = 1000\<rparr>\<rparr> = 1001
   \<and> validate_response_time
       \<lparr>status_code = 200, headers = Map.empty, body_text = '''',
        elapsed = \<lparr>days = 0, seconds = 1, microseconds = 1000\<rparr>\<rparr> 1001 = Inr ()"
proof -
  have "float_mul_int (int_truediv 1001000 1000000) 1000 < 1001"
    by code_simp
  then show ?thesis
    by (simp add: validate_response_time_def response_time_ms_def total_seconds_def
        exact_ms_def exact_us_def)
qed

subsection \<open>The other checks\<close>

lemma py_in_empty_values:
  "py_in v [JNull, JStr '''', JArr [], JObj []] \<longleftrightarrow> v \<in> {JNull, JStr '''', JArr [], JObj []}"
  by (cases v) (auto simp: py_in_def num_eq_def)

lemma map_of_None_iff: "map_of d f = None \<longleftrightarrow> f \<notin> fst ` set d"
  by (simp add: map_of_eq_None_iff)

text \<open>
  C4. \<^verbatim>\<open>validate_not_empty\<close> raises an \<^verbatim>\<open>AssertionError\<close> if and only if the field is
  absent from the dict or its value is \<^verbatim>\<open>None\<close>, the empty string, the empty list or the
  empty dict; it returns if and only if the field is present with another value; and it
  does one or the other (the subscript never raises \<^verbatim>\<open>KeyError\<close>).
\<close>

theorem validate_not_empty_raises_iff:
  "((\<exists>m. validate_not_empty d f = Inl (AssertionError m)) =
      (f \<notin> fst ` set d \<or> (\<exists>v. map_of d f = Some v \<and> v \<in> {JNull, JStr '''', JArr [], JObj []})))
   \<and> ((validate_not_empty d f = Inr ()) =
      (\<exists>v. map_of d f = Some v \<and> v \<notin> {JNull, JStr '''', JArr [], JObj []}))
   \<and> (validate_not_empty d f = Inr () \<or> (\<exists>m. validate_not_empty d f = Inl (AssertionError m)))"
proof (cases "map_of d f")
  case None
  then have "f \<notin> fst ` set d" by (simp add: map_of_eq_None_iff)
  with None show ?thesis
    by (simp add: validate_not_empty_def validate_field_exists_def dict_contains_def)
next
  case (Some v)
  then have "f \<in> fst ` set d" using map_of_eq_None_iff [of d f] by auto
  with Some show ?thesis
    by (simp add: validate_not_empty_def validate_field_exists_def dict_contains_def
        dict_getitem_def py_in_empty_values)
qed

text \<open>An empty name, a missing name, and an \<^verbatim>\<open>id\<close> of zero, which is not empty.\<close>

theorem validate_not_empty_raises_iff_witness:
  "(\<exists>m. validate_not_empty [(''id'', JInt 1), (''name'', JStr '''')] ''name'' = Inl (AssertionError m))
   \<and> (\<exists>m. validate_not_empty [(''id'', JInt 1)] ''name'' = Inl (AssertionError m))
   \<and> validate_not_empty [(''id'', JInt 0), (''name'', JStr ''Leanne'')] ''id'' = Inr ()"
  using validate_not_empty_raises_iff [of "[(''id'', JInt 1), (''name'', JStr '''')]" "''name''"]
    validate_not_empty_raises_iff [of "[(''id'', JInt 1)]" "''name''"]
    validate_not_empty_raises_iff [of "[(''id'', JInt 0), (''name'', JStr ''Leanne'')]" "''id''"]
  by simp

lemma starts_with_iff: "starts_with xs ys \<longleftrightarrow> (\<exists>ss. ys = xs @ ss)"
  by (induction xs ys rule: starts_with.induct) auto

lemma str_contains_iff: "str_contains xs ys \<longleftrightarrow> (\<exists>ps ss. ys = ps @ xs @ ss)"
proof (induction ys)
  case Nil
  then show ?case by auto
next
  case (Cons y ys)
  have "(\<exists>ps ss. y # ys = ps @ xs @ ss) \<longleftrightarrow>
        (\<exists>ss. y # ys = xs @ ss) \<or> (\<exists>ps ss. ys = ps @ xs @ ss)"
  proof
    assume "\<exists>ps ss. y # ys = ps @ xs @ ss"
    then obtain ps ss where eq: "y # ys = ps @ xs @ ss" by blast
    show "(\<exists>ss. y # ys = xs @ ss) \<or> (\<exists>ps ss. ys = ps @ xs @ ss)"
    proof (cases ps)
      case Nil
      with eq show ?thesis by auto
    next
      case (Cons p ps')
      with eq have "ys = ps' @ xs @ ss" by simp
      then show ?thesis by blast
    qed
  next
    assume "(\<exists>ss. y # ys = xs @ ss) \<or> (\<exists>ps ss. ys = ps @ xs @ ss)"
    then show "\<exists>ps ss. y # ys = ps @ xs @ ss"
    proof
      assume "\<exists>ss. y # ys = xs @ ss"
      then obtain ss where "y # ys = [] @ xs @ ss" by auto
      then show ?thesis by blast
    next
      assume "\<exists>ps ss. ys = ps @ xs @ ss"
      then obtain ps ss where "y # ys = (y # ps) @ xs @ ss" by auto
      then show ?thesis by blast
    qed
  qed
  with Cons show ?case by (simp add: starts_with_iff)
qed

lemma lower_Content_Type: "lower ''Content-Type'' = ''content-type''"
  by code_simp

text \<open>
  C9. \<^verbatim>\<open>validate_content_type\<close> is total: it passes if and only if the expected type
  occurs in the value of the \<^verbatim>\<open>Content-Type\<close> header, read as the empty string when the
  header is missing, and otherwise it raises the \<^verbatim>\<open>AssertionError\<close> that names the expected
  type and the value read (never a lookup error). So a response without the header fails
  every expected type but the empty one.
\<close>

theorem validate_content_type_total:
  "(validate_content_type r e = Inr ()) =
      (\<exists>ps ss. (case headers r ''content-type'' of None \<Rightarrow> '''' | Some v \<Rightarrow> v) = ps @ e @ ss)
   \<and> (validate_content_type r e = Inr () \<or>
        validate_content_type r e = Inl (AssertionError
          [Lit ''Expected Content-Type '', Fmt_quoted e, Lit '', got '',
           Fmt_quoted (case headers r ''content-type'' of None \<Rightarrow> '''' | Some v \<Rightarrow> v)]))
   \<and> (headers r ''content-type'' = None \<longrightarrow> e \<noteq> '''' \<longrightarrow>
        validate_content_type r e = Inl (AssertionError
          [Lit ''Expected Content-Type '', Fmt_quoted e, Lit '', got '', Fmt_quoted '''']))"
proof -
  have ct: "content_type r = (case headers r ''content-type'' of None \<Rightarrow> '''' | Some v \<Rightarrow> v)"
    by (simp add: content_type_def ci_get_def lower_Content_Type)
  have none: "headers r ''content-type'' = None \<Longrightarrow> e \<noteq> '''' \<Longrightarrow> \<not> str_contains e (content_type r)"
    by (simp add: ct)
  show ?thesis
    using none by (auto simp: validate_content_type_def str_contains_iff ct)
qed

text \<open>A response without headers, checked for \<^verbatim>\<open>application/json\<close>.\<close>

theorem validate_content_type_total_witness:
  "validate_content_type \<lparr>status_code = 200, headers = Map.empty, body_text = '''',
      elapsed = \<lparr>days = 0, seconds = 0, microseconds = 5\<rparr>\<rparr> ''application/json'' =
    Inl (AssertionError
      [Lit ''Expected Content-Type '', Fmt_quoted ''application/json'', Lit '', got '', Fmt_quoted ''''])"
  using validate_content_type_total [of "\<lparr>status_code = 200, headers = Map.empty, body_text = '''',
      elapsed = \<lparr>days = 0, seconds = 0, microseconds = 5\<rparr>\<rparr>" "''application/json''"]
  by simp

section \<open>Properties of the client\<close>

lemmas session_calls =
  session_get_def session_post_def session_put_def session_patch_def session_delete_def
  session_request_def

lemma lower_Accept: "lower ''Accept'' = ''accept''"
  by code_simp

lemma init_headers:
  "session_headers (session (init d b t)) =
     d(''content-type'' \<mapsto> ''application/json'', ''accept'' \<mapsto> ''application/json'')"
  by (simp add: init_def new_session_def ci_update_def lower_Content_Type lower_Accept Let_def)

text \<open>
  C5. Each of the five verb methods sends one request: to the base URL followed by the
  endpoint, and with the client's timeout. No method leaves the timeout out or passes another
  one.
\<close>

theorem verbs_url_and_timeout:
  "fst (get net c e params) =
     net \<lparr>req_method = ''GET'', req_url = base_url c @ e, req_params = params, req_json = None,
          req_headers = session_headers (session c), req_timeout = Some (timeout c)\<rparr>
   \<and> fst (post net c e body) =
     net \<lparr>req_method = ''POST'', req_url = base_url c @ e, req_params = None, req_json = body,
          req_headers = session_headers (session c), req_timeout = Some (timeout c)\<rparr>
   \<and> fst (put net c e body) =
     net \<lparr>req_method = ''PUT'', req_url = base_url c @ e, req_params = None, req_json = body,
          req_headers = session_headers (session c), req_timeout = Some (timeout c)\<rparr>
   \<and> fst (patch net c e body) =
     net \<lparr>req_method = ''PATCH'', req_url = base_url c @ e, req_params = None, req_json = body,
          req_headers = session_headers (session c), req_timeout = Some (timeout c)\<rparr>
   \<and> fst (delete net c e) =
     net \<lparr>req_method = ''DELETE'', req_url = base_url c @ e, req_params = None, req_json = None,
          req_headers = session_headers (session c), req_timeout = Some (timeout c)\<rparr>"
  by (simp add: get_def post_def put_def patch_def delete_def session_calls)

text \<open>
  A server that answers with the URL it was asked for and fails with a timeout when given
  none: the client of the test session gets \<^verbatim>\<open>/users/1\<close> under the base URL.
\<close>

theorem verbs_url_and_timeout_witness:
  "fst (get (\<lambda>r. case req_timeout r of
                    None \<Rightarrow> Inl Timeout
                  | Some t \<Rightarrow> Inr \<lparr>status_code = t, headers = Map.empty, body_text = req_url r,
                                   elapsed = \<lparr>days = 0, seconds = 0, microseconds = 1\<rparr>\<rparr>)
         (init_default Map.empty BASE_URL) ''/users/1'' None) =
     Inr \<lparr>status_code = 10, headers = Map.empty,
          body_text = ''https://jsonplaceholder.typicode.com/users/1'',
          elapsed = \<lparr>days = 0, seconds = 0, microseconds = 1\<rparr>\<rparr>"
  using verbs_url_and_timeout [of
      "\<lambda>r. case req_timeout r of
              None \<Rightarrow> Inl Timeout
            | Some t \<Rightarrow> Inr \<lparr>status_code = t, headers = Map.empty, body_text = req_url r,
                             elapsed = \<lparr>days = 0, seconds = 0, microseconds = 1\<rparr>\<rparr>"
      "init_default Map.empty BASE_URL" "''/users/1''" None None]
  by (simp add: init_default_def init_def BASE_URL_def Let_def)

text \<open>
  C6. The constructor leaves the session with \<^verbatim>\<open>Content-Type: application/json\<close> and
  \<^verbatim>\<open>Accept: application/json\<close>, whatever the library's default headers are, and every
  request of the new client carries them. No verb method changes the client: the client
  after a call is the client before it, whether the call returned or raised.
\<close>

theorem init_headers_and_frame:
  "ci_get (session_headers (session (init d b t))) ''Content-Type'' '''' = ''application/json''
   \<and> ci_get (session_headers (session (init d b t))) ''Accept'' '''' = ''application/json''
   \<and> base_url (init d b t) = b \<and> timeout (init d b t) = t
   \<and> fst (get net (init d b t) e params) =
     net \<lparr>req_method = ''GET'', req_url = b @ e, req_params = params, req_json = None,
          req_headers = d(''content-type'' \<mapsto> ''application/json'', ''accept'' \<mapsto> ''application/json''),
          req_timeout = Some t\<rparr>
   \<and> fst (post net (init d b t) e body) =
     net \<lparr>req_method = ''POST'', req_url = b @ e, req_params = None, req_json = body,
          req_headers = d(''content-type'' \<mapsto> ''application/json'', ''accept'' \<mapsto> ''application/json''),
          req_timeout = Some t\<rparr>
   \<and> fst (put net (init d b t) e body) =
     net \<lparr>req_method = ''PUT'', req_url = b @ e, req_params = None, req_json = body,
          req_headers = d(''content-type'' \<mapsto> ''application/json'', ''accept'' \<mapsto> ''application/json''),
          req_timeout = Some t\<rparr>
   \<and> fst (patch net (init d b t) e body) =
     net \<lparr>req_method = ''PATCH'', req_url = b @ e, req_params = None, req_json = body,
          req_headers = d(''content-type'' \<mapsto> ''application/json'', ''accept'' \<mapsto> ''application/json''),
          req_timeout = Some t\<rparr>
   \<and> fst (delete net (init d b t) e) =
     net \<lparr>req_method = ''DELETE'', req_url = b @ e, req_params = None, req_json = None,
          req_headers = d(''content-type'' \<mapsto> ''application/json'', ''accept'' \<mapsto> ''application/json''),
          req_timeout = Some t\<rparr>
   \<and> snd (get net c e params) = c \<and> snd (post net c e body) = c \<and> snd (put net c e body) = c
   \<and> snd (patch net c e body) = c \<and> snd (delete net c e) = c"
proof -
  have hdr: "ci_get (session_headers (session (init d b t))) ''Content-Type'' '''' = ''application/json''"
    "ci_get (session_headers (session (init d b t))) ''Accept'' '''' = ''application/json''"
    by (simp_all add: init_headers ci_get_def lower_Content_Type lower_Accept)
  have attrs: "base_url (init d b t) = b" "timeout (init d b t) = t"
    by (simp_all add: init_def Let_def)
  have sent: "fst (get net (init d b t) e params) =
     net \<lparr>req_method = ''GET'', req_url = b @ e, req_params = params, req_json = None,
          req_headers = d(''content-type'' \<mapsto> ''application/json'', ''accept'' \<mapsto> ''application/json''),
          req_timeout = Some t\<rparr>"
    "fst (post net (init d b t) e body) =
     net \<lparr>req_method = ''POST'', req_url = b @ e, req_params = None, req_json = body,
          req_headers = d(''content-type'' \<mapsto> ''application/json'', ''accept'' \<mapsto> ''application/json''),
          req_timeout = Some t\<rparr>"
    "fst (put net (init d b t) e body) =
     net \<lparr>req_method = ''PUT'', req_url = b @ e, req_params = None, req_json = body,
          req_headers = d(''content-type'' \<mapsto> ''application/json'', ''accept'' \<mapsto> ''application/json''),
          req_timeout = Some t\<rparr>"
    "fst (patch net (init d b t) e body) =
     net \<lparr>req_method = ''PATCH'', req_url = b @ e, req_params = None, req_json = body,
          req_headers = d(''content-type'' \<mapsto> ''application/json'', ''accept'' \<mapsto> ''application/json''),
          req_timeout = Some t\<rparr>"
    "fst (delete net (init d b t) e) =
     net \<lparr>req_method = ''DELETE'', req_url = b @ e, req_params = None, req_json = None,
          req_headers = d(''content-type'' \<mapsto> ''application/json'', ''accept'' \<mapsto> ''application/json''),
          req_timeout = Some t\<rparr>"
    by (simp_all add: get_def post_def put_def patch_def delete_def session_calls init_headers attrs)
  have frame: "snd (get net c e params) = c" "snd (post net c e body) = c"
    "snd (put net c e body) = c" "snd (patch net c e body) = c" "snd (delete net c e) = c"
    by (simp_all add: get_def post_def put_def patch_def delete_def session_calls)
  show ?thesis
    using hdr attrs sent frame by simp
qed

text \<open>
  The client of the test session, on a library whose default is \<^verbatim>\<open>Accept: */*\<close>: the
  constructor's value replaces the default, and a request that fails leaves the client as it
  was.
\<close>

theorem init_headers_and_frame_witness:
  "ci_get (session_headers (session (init_default [''accept'' \<mapsto> ''*/*''] BASE_URL))) ''Accept'' '''' =
     ''application/json''
   \<and> snd (post (\<lambda>r. Inl ConnectionError) (init_default [''accept'' \<mapsto> ''*/*''] BASE_URL) USERS
          (Some VALID_USER_CREATE)) =
     init_default [''accept'' \<mapsto> ''*/*''] BASE_URL"
  using init_headers_and_frame [where d = "[''accept'' \<mapsto> ''*/*'']" and b = BASE_URL and t = 10
      and net = "\<lambda>r. Inl ConnectionError" and e = USERS and body = "Some VALID_USER_CREATE"
      and params = None and c = "init_default [''accept'' \<mapsto> ''*/*''] BASE_URL"]
  by (simp add: init_default_def)

text \<open>
  C7. \<^verbatim>\<open>__exit__\<close> closes the session whatever its three arguments are, so the session
  is closed when a with statement ends, whether its suite returned or raised.
\<close>

theorem exit_always_closes:
  "snd (exit c exc_type exc_val exc_tb) = close c
   \<and> closed (session (snd (exit c exc_type exc_val exc_tb)))
   \<and> closed (session (snd (with_stmt c suite)))"
  by (simp add: exit_def close_def session_close_def with_stmt_def
      split: prod.split sum.split)

text \<open>A suite that fails an assertion: the session is closed all the same.\<close>

theorem exit_always_closes_witness:
  "closed (session (snd (exit (init_default Map.empty BASE_URL)
       (Some ''AssertionError'') (Some (AssertionError [])) (Some ()))))
   \<and> closed (session (snd (with_stmt (init_default Map.empty BASE_URL)
       (\<lambda>client. (Inl (AssertionError []) :: exn + unit, client)))))"
  using exit_always_closes [of "init_default Map.empty BASE_URL"
      "Some ''AssertionError''" "Some (AssertionError [])" "Some ()"
      "\<lambda>client. (Inl (AssertionError []) :: exn + unit, client)"]
  by blast

text \<open>
  C10. \<^verbatim>\<open>__exit__\<close> returns \<^verbatim>\<open>None\<close>, which is false, so a with statement whose suite
  raises an exception raises that same exception, the session closed.
\<close>

theorem exit_does_not_suppress:
  "fst (exit c exc_type exc_val exc_tb) = JNull
   \<and> \<not> py_truthy (fst (exit c exc_type exc_val exc_tb))
   \<and> (fst (suite (enter c)) = Inl e \<longrightarrow>
        with_stmt c suite = (Inl e, close (snd (suite (enter c)))) \<and>
        closed (session (snd (with_stmt c suite))))"
  by (simp add: exit_def close_def session_close_def with_stmt_def
      split: prod.split sum.split)

text \<open>A suite whose request times out: the timeout leaves the with statement.\<close>

theorem exit_does_not_suppress_witness:
  "with_stmt (init_default Map.empty BASE_URL) (\<lambda>client. get (\<lambda>r. Inl Timeout) client USERS None) =
     (Inl Timeout, close (init_default Map.empty BASE_URL))"
  using exit_does_not_suppress [of "init_default Map.empty BASE_URL"
      "Some ''Timeout''" "Some Timeout" "Some ()"
      "\<lambda>client. get (\<lambda>r. Inl Timeout) client USERS None" Timeout]
  by (simp add: enter_def get_def session_calls)

section \<open>Properties of the endpoint registry\<close>

text \<open>
  C8 (as amended). The registry's names stand for fixed path templates, and its one function,
  \<^verbatim>\<open>get_full_url\<close>, is a function of its argument alone that puts the fixed base URL in
  front of the endpoint and changes nothing in it: the endpoint is what follows the base URL
  in the result, and every run of characters of the endpoint, a placeholder included, is in
  the result. The registry has no function that fills a placeholder in.
\<close>

theorem get_full_url_concat:
  "get_full_url e = BASE_URL @ e
   \<and> BASE_URL = ''https://jsonplaceholder.typicode.com''
   \<and> drop (length BASE_URL) (get_full_url e) = e
   \<and> (str_contains p e \<longrightarrow> str_contains p (get_full_url e))
   \<and> get_full_url ''/users'' = ''https://jsonplaceholder.typicode.com/users''
   \<and> map get_full_url [USERS, USER_BY_ID, POSTS, POST_BY_ID, USER_POSTS] =
       [''https://jsonplaceholder.typicode.com/users'',
        ''https://jsonplaceholder.typicode.com/users/{user_id}'',
        ''https://jsonplaceholder.typicode.com/posts'',
        ''https://jsonplaceholder.typicode.com/posts/{post_id}'',
        ''https://jsonplaceholder.typicode.com/posts?userId={user_id}'']"
proof -
  have keep: "str_contains p (get_full_url e)" if "str_contains p e"
  proof -
    from that obtain ps ss where "e = ps @ p @ ss"
      by (auto simp: str_contains_iff)
    then have "get_full_url e = (BASE_URL @ ps) @ p @ ss"
      by (simp add: get_full_url_def)
    then show ?thesis
      unfolding str_contains_iff by blast
  qed
  have rest: "get_full_url e = BASE_URL @ e"
    "BASE_URL = ''https://jsonplaceholder.typicode.com''"
    "drop (length BASE_URL) (get_full_url e) = e"
    "get_full_url ''/users'' = ''https://jsonplaceholder.typicode.com/users''"
    "map get_full_url [USERS, USER_BY_ID, POSTS, POST_BY_ID, USER_POSTS] =
       [''https://jsonplaceholder.typicode.com/users'',
        ''https://jsonplaceholder.typicode.com/users/{user_id}'',
        ''https://jsonplaceholder.typicode.com/posts'',
        ''https://jsonplaceholder.typicode.com/posts/{post_id}'',
        ''https://jsonplaceholder.typicode.com/posts?userId={user_id}'']"
    by (simp_all add: get_full_url_def BASE_URL_def USERS_def USER_BY_ID_def POSTS_def
        POST_BY_ID_def USER_POSTS_def)
  show ?thesis
    using keep rest by blast
qed

text \<open>The template of a post's comments: its placeholder is in the full URL.\<close>

theorem get_full_url_concat_witness:
  "str_contains ''{post_id}'' (get_full_url POST_COMMENTS)
   \<and> get_full_url ''/users/1'' = ''https://jsonplaceholder.typicode.com/users/1''"
proof -
  have "str_contains ''{post_id}'' POST_COMMENTS"
    by code_simp
  with get_full_url_concat [of POST_COMMENTS "''{post_id}''"]
  have "str_contains ''{post_id}'' (get_full_url POST_COMMENTS)"
    by blast
  moreover from get_full_url_concat [of "''/users/1''" "''{post_id}''"]
  have "get_full_url ''/users/1'' = BASE_URL @ ''/users/1''"
    by (rule conjunct1)
  then have "get_full_url ''/users/1'' = ''https://jsonplaceholder.typicode.com/users/1''"
    by (simp add: BASE_URL_def)
  ultimately show ?thesis
    by (rule conjI)
qed

text \<open>
  C8 as stated fails: the registry's function does not substitute placeholders. Given the
  template \<^verbatim>\<open>USER_BY_ID\<close>, \<^verbatim>\<open>get_full_url\<close> returns a URL that still holds
  \<^verbatim>\<open>{user_id}\<close>.
\<close>

theorem get_full_url_keeps_placeholder:
  "get_full_url USER_BY_ID = ''https://jsonplaceholder.typicode.com/users/{user_id}''
   \<and> str_contains ''{user_id}'' (get_full_url USER_BY_ID)"
proof
  show "get_full_url USER_BY_ID = ''https://jsonplaceholder.typicode.com/users/{user_id}''"
    by (simp add: get_full_url_def BASE_URL_def USER_BY_ID_def)
  show "str_contains ''{user_id}'' (get_full_url USER_BY_ID)"
    by code_simp
qed

end
